theory Spec2Isabelle
  imports Main
begin

section \<open>The document, as assets/js/adminlte.js sees it\<close>

text \<open>
  The script reads and writes the page through a handful of DOM calls:
  \<^verbatim>\<open>window.innerWidth\<close>, \<^verbatim>\<open>document.body\<close>, \<^verbatim>\<open>document.getElementById\<close>,
  \<^verbatim>\<open>document.querySelector\<close>, \<^verbatim>\<open>node.contains\<close>, \<^verbatim>\<open>element.parentElement\<close>,
  \<^verbatim>\<open>element.classList\<close> and \<^verbatim>\<open>event.preventDefault\<close>. The page is a store:
  nodes are addresses, and every attribute the script can observe is a function of the
  address, so that two lookups that return the same element (the body carrying the id
  \<^verbatim>\<open>main-sidebar\<close>, say) alias as they do in the browser.
\<close>

type_synonym node = nat

text \<open>
  \<^item> \<open>innerWidth\<close>: \<^verbatim>\<open>window.innerWidth\<close>, a whole number of CSS pixels;
  \<^item> \<open>body\<close>: \<^verbatim>\<open>document.body\<close>, which is \<^verbatim>\<open>null\<close> in a document without one;
  \<^item> \<open>elements\<close>: the elements of the document in tree order, the order in
    which \<^verbatim>\<open>getElementById\<close> and \<^verbatim>\<open>querySelector\<close> search;
  \<^item> \<open>elem_id\<close>: the \<^verbatim>\<open>id\<close> attribute of an element, if it has one;
  \<^item> \<open>classList\<close>: the token list of an element's \<^verbatim>\<open>class\<close> attribute, an
    ordered set;
  \<^item> \<open>ancestors\<close>: the chain of parents of a node, the nearest first. A DOM tree is
    finite and acyclic, so the chain is a list; it is empty for a node without a parent
    element.
\<close>

record dom =
  innerWidth :: int
  body :: "node option"
  elements :: "node list"
  elem_id :: "node \<Rightarrow> string option"
  classList :: "node \<Rightarrow> string list"
  ancestors :: "node \<Rightarrow> node list"

text \<open>The part of a DOM event the script uses: its target and its cancellation flag.\<close>

record event =
  target :: node
  cancelable :: bool
  defaultPrevented :: bool

text \<open>
  Dereferencing \<^verbatim>\<open>null\<close> (\<^verbatim>\<open>sidebar.classList\<close> when the lookup found nothing) throws
  a \<^verbatim>\<open>TypeError\<close>, which no function of the script catches.
\<close>

datatype fault = TypeError

subsection \<open>Lookups\<close>

definition getElementById :: "dom \<Rightarrow> string \<Rightarrow> node option" where
  "getElementById d i = find (\<lambda>n. elem_id d n = Some i) (elements d)"

text \<open>
  \<^verbatim>\<open>document.querySelector('.' + c)\<close>: the first element in tree order whose class
  list has the token \<open>c\<close>. The script only ever passes a single class selector.
\<close>

definition querySelector_class :: "dom \<Rightarrow> string \<Rightarrow> node option" where
  "querySelector_class d c = find (\<lambda>n. c \<in> set (classList d n)) (elements d)"

definition parentElement :: "dom \<Rightarrow> node \<Rightarrow> node option" where
  "parentElement d n = (case ancestors d n of [] \<Rightarrow> None | p # _ \<Rightarrow> Some p)"

text \<open>\<^verbatim>\<open>a.contains(b)\<close>: \<open>b\<close> is \<open>a\<close> itself or a descendant of \<open>a\<close>.\<close>

definition contains :: "dom \<Rightarrow> node \<Rightarrow> node \<Rightarrow> bool" where
  "contains d a b = (b = a \<or> a \<in> set (ancestors d b))"

subsection \<open>The class list of an element\<close>

definition classList_contains :: "dom \<Rightarrow> node \<Rightarrow> string \<Rightarrow> bool" where
  "classList_contains d n c = (c \<in> set (classList d n))"

definition classList_remove :: "dom \<Rightarrow> node \<Rightarrow> string \<Rightarrow> dom" where
  "classList_remove d n c = d\<lparr>classList := (classList d)(n := removeAll c (classList d n))\<rparr>"

text \<open>
  \<^verbatim>\<open>classList.toggle(c)\<close> removes the token when it is there and appends it when it is
  not. (Its boolean result is discarded at every call site of the script.)
\<close>

definition classList_toggle :: "dom \<Rightarrow> node \<Rightarrow> string \<Rightarrow> dom" where
  "classList_toggle d n c =
     (if c \<in> set (classList d n)
      then d\<lparr>classList := (classList d)(n := removeAll c (classList d n))\<rparr>
      else d\<lparr>classList := (classList d)(n := classList d n @ [c])\<rparr>)"

text \<open>\<^verbatim>\<open>event.preventDefault()\<close> sets the canceled flag of a cancelable event.\<close>

definition preventDefault :: "event \<Rightarrow> event" where
  "preventDefault e = (if cancelable e then e\<lparr>defaultPrevented := True\<rparr> else e)"

section \<open>The four handlers\<close>

text \<open>
  Each handler takes the page and returns the page it leaves behind, or the fault it
  throws. In \<open>toggleSidebar\<close>, \<open>handleResize\<close> and the click listener every
  dereference that can throw comes before the only write, so a fault leaves the page as it
  was; \<open>toggleTreeview\<close> has already called \<^verbatim>\<open>preventDefault\<close> when it can throw,
  so it returns the event beside its result.
\<close>

definition toggleSidebar :: "dom \<Rightarrow> fault + dom" where
  "toggleSidebar d =
     (let body = body d;
          sidebar = getElementById d ''main-sidebar''
      in if innerWidth d > 991
         then (case body of
                 None \<Rightarrow> Inl TypeError
               | Some b \<Rightarrow> Inr (classList_toggle d b ''sidebar-collapse''))
         else (case sidebar of
                 None \<Rightarrow> Inl TypeError
               | Some s \<Rightarrow> Inr (classList_toggle d s ''sidebar-open'')))"

definition toggleTreeview :: "dom \<Rightarrow> node \<Rightarrow> event \<Rightarrow> event \<times> (fault + dom)" where
  "toggleTreeview d element event =
     (let event' = preventDefault event;
          parent = parentElement d element
      in (event',
          case parent of
            None \<Rightarrow> Inl TypeError
          | Some p \<Rightarrow> Inr (classList_toggle d p ''menu-open'')))"

definition handleResize :: "dom \<Rightarrow> fault + dom" where
  "handleResize d =
     (let sidebar = getElementById d ''main-sidebar''
      in if innerWidth d > 991
         then (case sidebar of
                 None \<Rightarrow> Inl TypeError
               | Some s \<Rightarrow> Inr (classList_remove d s ''sidebar-open''))
         else Inr d)"

text \<open>
  The listener registered on \<^verbatim>\<open>document\<close> for \<^verbatim>\<open>click\<close>. Its condition is a chain of
  \<^verbatim>\<open>&&\<close>, evaluated left to right and cut short at the first false operand: an
  operand is dereferenced only when all operands before it were true.
\<close>

definition clickListener :: "dom \<Rightarrow> event \<Rightarrow> fault + dom" where
  "clickListener d event =
     (let sidebar = getElementById d ''main-sidebar'';
          sidebarToggle = querySelector_class d ''sidebar-toggle''
      in if innerWidth d \<le> 991
         then (case sidebar of
                 None \<Rightarrow> Inl TypeError
               | Some s \<Rightarrow>
                   if classList_contains d s ''sidebar-open''
                   then if \<not> contains d s (target event)
                        then (case sidebarToggle of
                                None \<Rightarrow> Inl TypeError
                              | Some t \<Rightarrow>
                                  if \<not> contains d t (target event)
                                  then Inr (classList_remove d s ''sidebar-open'')
                                  else Inr d)
                        else Inr d
                   else Inr d)
         else Inr d)"

section \<open>A page to run the handlers on\<close>

text \<open>
  The layout the script is written for: a body (node 10) holding the sidebar (20, id
  \<^verbatim>\<open>main-sidebar\<close>), the toggle button (50, class \<^verbatim>\<open>sidebar-toggle\<close>) and the
  content (60); inside the sidebar a menu item (30) with its link (40). The width and
  the class list of the sidebar are left open.
\<close>

definition page :: "int \<Rightarrow> string list \<Rightarrow> dom" where
  "page w cs =
     \<lparr> innerWidth = w,
       body = Some 10,
       elements = [10, 20, 30, 40, 50, 60],
       elem_id = (\<lambda>n. if n = 20 then Some ''main-sidebar'' else None),
       classList = (\<lambda>n. if n = 20 then cs
                         else if n = 30 then [''nav-item'']
                         else if n = 50 then [''sidebar-toggle'']
                         else []),
       ancestors = (\<lambda>n. if n = 20 then [10]
                         else if n = 30 then [20, 10]
                         else if n = 40 then [30, 20, 10]
                         else if n = 50 then [10]
                         else if n = 60 then [10]
                         else []) \<rparr>"

text \<open>The same page without the sidebar and without the toggle button.\<close>

definition bare_page :: "int \<Rightarrow> dom" where
  "bare_page w =
     \<lparr> innerWidth = w,
       body = Some 10,
       elements = [10, 60],
       elem_id = (\<lambda>n. None),
       classList = (\<lambda>n. []),
       ancestors = (\<lambda>n. if n = 60 then [10] else []) \<rparr>"

definition click :: "node \<Rightarrow> event" where
  "click n = \<lparr> target = n, cancelable = True, defaultPrevented = False \<rparr>"

section \<open>Facts about the DOM operations\<close>

lemma classList_toggle_flips:
  "classList_contains (classList_toggle d n c) n c = (\<not> classList_contains d n c)"
  by (simp add: classList_contains_def classList_toggle_def)

lemma classList_toggle_other_class:
  "c' \<noteq> c \<Longrightarrow> classList_contains (classList_toggle d n c) m c' = classList_contains d m c'"
  by (simp add: classList_contains_def classList_toggle_def)

lemma classList_toggle_other_node:
  "m \<noteq> n \<Longrightarrow> classList (classList_toggle d n c) m = classList d m"
  by (simp add: classList_toggle_def)

lemma classList_remove_gone:
  "\<not> classList_contains (classList_remove d n c) n c"
  by (simp add: classList_contains_def classList_remove_def)

lemma classList_remove_other_class:
  "c' \<noteq> c \<Longrightarrow> classList_contains (classList_remove d n c) m c' = classList_contains d m c'"
  by (simp add: classList_contains_def classList_remove_def)

lemma classList_remove_other_node:
  "m \<noteq> n \<Longrightarrow> classList (classList_remove d n c) m = classList d m"
  by (simp add: classList_remove_def)

lemma classList_remove_set:
  "set (classList (classList_remove d n c) m) =
     (if m = n then set (classList d n) - {c} else set (classList d m))"
  by (simp add: classList_remove_def)

lemma getElementById_toggle [simp]:
  "getElementById (classList_toggle d n c) i = getElementById d i"
  by (simp add: getElementById_def classList_toggle_def)

lemma getElementById_remove [simp]:
  "getElementById (classList_remove d n c) i = getElementById d i"
  by (simp add: getElementById_def classList_remove_def)

lemma parentElement_toggle [simp]:
  "parentElement (classList_toggle d n c) m = parentElement d m"
  by (simp add: parentElement_def classList_toggle_def)

lemma body_toggle [simp]: "body (classList_toggle d n c) = body d"
  by (simp add: classList_toggle_def)

lemma innerWidth_toggle [simp]: "innerWidth (classList_toggle d n c) = innerWidth d"
  by (simp add: classList_toggle_def)

lemma classList_toggle_twice:
  "classList_contains (classList_toggle (classList_toggle d n c) n c) m c' =
     classList_contains d m c'"
  by (auto simp add: classList_contains_def classList_toggle_def)

lemma classList_contains_width [simp]:
  "classList_contains (d\<lparr>innerWidth := w\<rparr>) n c = classList_contains d n c"
  by (simp add: classList_contains_def)

lemma getElementById_width [simp]:
  "getElementById (d\<lparr>innerWidth := w\<rparr>) i = getElementById d i"
  by (simp add: getElementById_def)

text \<open>What a handler that returns has done to the page.\<close>

lemma toggleSidebar_result:
  "toggleSidebar d = Inr d1 \<Longrightarrow>
     (innerWidth d > 991 \<and> (\<exists>b. body d = Some b \<and> d1 = classList_toggle d b ''sidebar-collapse'')) \<or>
     (innerWidth d \<le> 991 \<and>
      (\<exists>s. getElementById d ''main-sidebar'' = Some s \<and> d1 = classList_toggle d s ''sidebar-open''))"
  by (cases "innerWidth d > 991"; cases "body d"; cases "getElementById d ''main-sidebar''")
     (simp_all add: toggleSidebar_def)

lemma toggleSidebar_twice:
  assumes "toggleSidebar d = Inr d1"
  shows "\<exists>d2. toggleSidebar d1 = Inr d2 \<and>
           (\<forall>n c. classList_contains d2 n c = classList_contains d n c)"
  using toggleSidebar_result [OF assms]
  by (elim disjE conjE exE) (simp_all add: toggleSidebar_def classList_toggle_twice)

lemma toggleTreeview_twice:
  assumes "toggleTreeview d element ev = (ev1, Inr d1)"
  shows "parentElement d1 element = parentElement d element \<and>
         (\<exists>d2 ev2. toggleTreeview d1 element ev' = (ev2, Inr d2) \<and>
            (\<forall>n c. classList_contains d2 n c = classList_contains d n c))"
proof (cases "parentElement d element")
  case None
  with assms show ?thesis by (simp add: toggleTreeview_def)
next
  case (Some p)
  with assms have "d1 = classList_toggle d p ''menu-open''"
    by (simp add: toggleTreeview_def)
  with Some show ?thesis
    by (simp add: toggleTreeview_def classList_toggle_twice)
qed

lemma handleResize_result:
  "handleResize d = Inr d' \<Longrightarrow> d' = d \<or> (\<exists>s. d' = classList_remove d s ''sidebar-open'')"
  by (cases "innerWidth d > 991"; cases "getElementById d ''main-sidebar''")
     (auto simp add: handleResize_def)

lemma clickListener_result:
  "clickListener d ev = Inr d' \<Longrightarrow> d' = d \<or> (\<exists>s. d' = classList_remove d s ''sidebar-open'')"
  by (cases "innerWidth d \<le> 991"; cases "getElementById d ''main-sidebar''";
      cases "querySelector_class d ''sidebar-toggle''")
     (auto simp add: clickListener_def split: if_splits)

lemma classList_remove_only_removes:
  "(set (classList (classList_remove d s c) n) = set (classList d n) \<or>
    set (classList (classList_remove d s c) n) = set (classList d n) - {c}) \<and>
   (classList_contains (classList_remove d s c) n c \<longrightarrow> classList_contains d n c)"
  by (simp add: classList_remove_set classList_contains_def)

text \<open>The lookups on the example page.\<close>

lemma page_sidebar: "getElementById (page w cs) ''main-sidebar'' = Some 20"
  by (simp add: getElementById_def page_def)

lemma page_body: "body (page w cs) = Some 10"
  by (simp add: page_def)

lemma page_width: "innerWidth (page w cs) = w"
  by (simp add: page_def)

lemma page_classList:
  "classList (page w cs) 10 = []"
  "classList (page w cs) 20 = cs"
  "classList (page w cs) 30 = [''nav-item'']"
  by (simp_all add: page_def)

lemma page_has:
  "classList_contains (page w cs) 20 c = (c \<in> set cs)"
  "\<not> classList_contains (page w cs) 10 c"
  by (simp_all add: classList_contains_def page_classList)

lemma page_toggle:
  "''sidebar-toggle'' \<notin> set cs \<Longrightarrow>
     querySelector_class (page w cs) ''sidebar-toggle'' = Some 50"
  by (simp add: querySelector_class_def page_def)

lemma page_parent: "parentElement (page w cs) 40 = Some 30"
  by (simp add: parentElement_def page_def)

lemma page_contains:
  "contains (page w cs) 20 40"
  "\<not> contains (page w cs) 20 60"
  "\<not> contains (page w cs) 50 60"
  "\<not> contains (page w cs) 20 50"
  "contains (page w cs) 50 50"
  by (simp_all add: contains_def page_def)

lemma bare_page_sidebar: "getElementById (bare_page w) ''main-sidebar'' = None"
  by (simp add: getElementById_def bare_page_def)

lemma bare_page_toggle: "querySelector_class (bare_page w) ''sidebar-toggle'' = None"
  by (simp add: querySelector_class_def bare_page_def)

lemma bare_page_body: "body (bare_page w) = Some 10"
  by (simp add: bare_page_def)

lemma bare_page_width: "innerWidth (bare_page w) = w"
  by (simp add: bare_page_def)

lemma bare_page_classList: "classList (bare_page w) n = []"
  by (simp add: bare_page_def)

lemma bare_page_has: "\<not> classList_contains (bare_page w) n c"
  by (simp add: classList_contains_def bare_page_classList)

section \<open>toggleSidebar\<close>

text \<open>
  C1. A call to \<open>toggleSidebar\<close> at a width above 991 flips the presence of
  \<^verbatim>\<open>sidebar-collapse\<close> on the document body; at a width of 991 or less it flips the
  presence of \<^verbatim>\<open>sidebar-open\<close> on the element with id \<^verbatim>\<open>main-sidebar\<close> instead.
\<close>

theorem toggleSidebar_flips:
  "(innerWidth d > 991 \<longrightarrow> body d = Some b \<longrightarrow>
      (\<exists>d'. toggleSidebar d = Inr d' \<and>
            classList_contains d' b ''sidebar-collapse''
              = (\<not> classList_contains d b ''sidebar-collapse''))) \<and>
   (innerWidth d \<le> 991 \<longrightarrow> getElementById d ''main-sidebar'' = Some s \<longrightarrow>
      (\<exists>d'. toggleSidebar d = Inr d' \<and>
            classList_contains d' s ''sidebar-open''
              = (\<not> classList_contains d s ''sidebar-open'')))"
  by (simp add: toggleSidebar_def classList_toggle_flips)

theorem toggleSidebar_flips_witness:
  "(991 < innerWidth (page 1200 []) \<and> body (page 1200 []) = Some 10 \<and>
    \<not> classList_contains (page 1200 []) 10 ''sidebar-collapse'' \<and>
    (\<exists>d'. toggleSidebar (page 1200 []) = Inr d' \<and>
          classList_contains d' 10 ''sidebar-collapse'')) \<and>
   (innerWidth (page 500 []) \<le> 991 \<and>
    getElementById (page 500 []) ''main-sidebar'' = Some 20 \<and>
    \<not> classList_contains (page 500 []) 20 ''sidebar-open'' \<and>
    (\<exists>d'. toggleSidebar (page 500 []) = Inr d' \<and>
          classList_contains d' 20 ''sidebar-open''))"
  using toggleSidebar_flips [of "page 1200 []" 10 20]
        toggleSidebar_flips [of "page 500 []" 10 20]
  by (simp add: page_sidebar page_body page_width page_has)

text \<open>
  C7. A call to \<open>toggleSidebar\<close> at a width of 991 or less leaves the
  \<^verbatim>\<open>sidebar-collapse\<close> class of the document body as it was: the call either throws
  before any write (only when there is no \<^verbatim>\<open>main-sidebar\<close> element) or returns
  a page with the same body, on which no element has gained or lost
  \<^verbatim>\<open>sidebar-collapse\<close>.
\<close>

theorem toggleSidebar_mobile_keeps_collapse:
  "innerWidth d \<le> 991 \<Longrightarrow>
     (case toggleSidebar d of
        Inl f \<Rightarrow> getElementById d ''main-sidebar'' = None
      | Inr d' \<Rightarrow> body d' = body d \<and>
          (\<forall>n. classList_contains d' n ''sidebar-collapse''
                 = classList_contains d n ''sidebar-collapse''))"
  by (simp add: toggleSidebar_def classList_toggle_other_class split: option.splits)

theorem toggleSidebar_mobile_keeps_collapse_witness:
  "innerWidth (page 500 []) \<le> 991 \<and>
   (\<exists>d'. toggleSidebar (page 500 []) = Inr d' \<and>
         classList_contains d' 20 ''sidebar-open'' \<and>
         body d' = Some 10 \<and>
         classList_contains d' 10 ''sidebar-collapse''
           = classList_contains (page 500 []) 10 ''sidebar-collapse'')"
  using toggleSidebar_mobile_keeps_collapse [of "page 500 []"]
  by (simp add: toggleSidebar_def page_sidebar page_width page_body classList_toggle_flips
        page_has)

text \<open>
  C9. In a document without a \<^verbatim>\<open>main-sidebar\<close> element, at a width above 991,
  \<open>toggleSidebar\<close> completes without a fault and flips \<^verbatim>\<open>sidebar-collapse\<close>
  on the body: the \<^verbatim>\<open>null\<close> that the lookup returned is dereferenced in the other
  branch only.
\<close>

theorem toggleSidebar_desktop_without_sidebar:
  "getElementById d ''main-sidebar'' = None \<Longrightarrow> innerWidth d > 991 \<Longrightarrow> body d = Some b \<Longrightarrow>
     \<exists>d'. toggleSidebar d = Inr d' \<and>
          classList_contains d' b ''sidebar-collapse''
            = (\<not> classList_contains d b ''sidebar-collapse'')"
  by (simp add: toggleSidebar_def classList_toggle_flips)

theorem toggleSidebar_desktop_without_sidebar_witness:
  "getElementById (bare_page 1200) ''main-sidebar'' = None \<and>
   innerWidth (bare_page 1200) > 991 \<and> body (bare_page 1200) = Some 10 \<and>
   \<not> classList_contains (bare_page 1200) 10 ''sidebar-collapse'' \<and>
   (\<exists>d'. toggleSidebar (bare_page 1200) = Inr d' \<and>
         classList_contains d' 10 ''sidebar-collapse'')"
  using toggleSidebar_desktop_without_sidebar [of "bare_page 1200" 10]
  by (simp add: bare_page_sidebar bare_page_width bare_page_body bare_page_has)

section \<open>handleResize\<close>

text \<open>
  C3. A call to \<open>handleResize\<close> at a width above 991 removes \<^verbatim>\<open>sidebar-open\<close>
  from the \<^verbatim>\<open>main-sidebar\<close> element and leaves \<^verbatim>\<open>sidebar-collapse\<close> alone on
  every element; at a width of 991 or less it changes nothing. So when the window is
  resized back to any width of 991 or less and \<open>handleResize\<close> runs again,
  \<^verbatim>\<open>sidebar-open\<close> is not put back.
\<close>

theorem handleResize_effect:
  "(innerWidth d > 991 \<longrightarrow> getElementById d ''main-sidebar'' = Some s \<longrightarrow>
      (\<exists>d'. handleResize d = Inr d' \<and>
            \<not> classList_contains d' s ''sidebar-open'' \<and>
            (\<forall>n. classList_contains d' n ''sidebar-collapse''
                   = classList_contains d n ''sidebar-collapse'') \<and>
            (\<forall>w. w \<le> 991 \<longrightarrow>
                 handleResize (d'\<lparr>innerWidth := w\<rparr>) = Inr (d'\<lparr>innerWidth := w\<rparr>) \<and>
                 \<not> classList_contains (d'\<lparr>innerWidth := w\<rparr>) s ''sidebar-open''))) \<and>
   (innerWidth d \<le> 991 \<longrightarrow> handleResize d = Inr d)"
  by (simp add: handleResize_def classList_remove_gone classList_remove_other_class)

theorem handleResize_effect_witness:
  "innerWidth (page 1200 [''sidebar-open'']) > 991 \<and>
   getElementById (page 1200 [''sidebar-open'']) ''main-sidebar'' = Some 20 \<and>
   classList_contains (page 1200 [''sidebar-open'']) 20 ''sidebar-open'' \<and>
   (\<exists>d'. handleResize (page 1200 [''sidebar-open'']) = Inr d' \<and>
         \<not> classList_contains d' 20 ''sidebar-open'' \<and>
         handleResize (d'\<lparr>innerWidth := 500\<rparr>) = Inr (d'\<lparr>innerWidth := 500\<rparr>) \<and>
         \<not> classList_contains (d'\<lparr>innerWidth := 500\<rparr>) 20 ''sidebar-open'') \<and>
   innerWidth (page 500 [''sidebar-open'']) \<le> 991 \<and>
   handleResize (page 500 [''sidebar-open'']) = Inr (page 500 [''sidebar-open''])"
  using handleResize_effect [of "page 1200 [''sidebar-open'']" 20]
        handleResize_effect [of "page 500 [''sidebar-open'']" 20]
  by (auto simp add: page_sidebar page_width page_has)

section \<open>The document click listener\<close>

text \<open>
  C4. A click at a width above 991 on a page whose sidebar lacks \<^verbatim>\<open>sidebar-open\<close>
  leaves the flag absent and throws nothing. The listener returns the page it was given
  whatever the two lookups found, also when both returned \<^verbatim>\<open>null\<close>: the width test
  comes first in the condition and cuts it short, so neither the class list of the sidebar
  nor either \<^verbatim>\<open>contains\<close> is reached.
\<close>

theorem clickListener_desktop:
  "innerWidth d > 991 \<Longrightarrow> \<not> classList_contains d s ''sidebar-open'' \<Longrightarrow>
     \<exists>d'. clickListener d ev = Inr d' \<and> d' = d \<and>
          \<not> classList_contains d' s ''sidebar-open''"
  by (simp add: clickListener_def)

theorem clickListener_desktop_witness:
  "innerWidth (page 1200 []) > 991 \<and>
   \<not> classList_contains (page 1200 []) 20 ''sidebar-open'' \<and>
   clickListener (page 1200 []) (click 60) = Inr (page 1200 []) \<and>
   getElementById (bare_page 1200) ''main-sidebar'' = None \<and>
   querySelector_class (bare_page 1200) ''sidebar-toggle'' = None \<and>
   clickListener (bare_page 1200) (click 60) = Inr (bare_page 1200)"
  using clickListener_desktop [of "page 1200 []" 20 "click 60"]
        clickListener_desktop [of "bare_page 1200" 20 "click 60"]
  by (simp add: page_width page_has bare_page_width bare_page_has bare_page_sidebar
        bare_page_toggle)

text \<open>
  C2. With the \<^verbatim>\<open>main-sidebar\<close> element and the \<^verbatim>\<open>.sidebar-toggle\<close> element in
  the document, the click listener returns without a fault, and it removes
  \<^verbatim>\<open>sidebar-open\<close> from the sidebar (the class was there before and is gone after)
  exactly when the width is 991 or less, the sidebar has \<^verbatim>\<open>sidebar-open\<close>, and the
  target of the click is contained neither in the sidebar nor in the toggle element. In
  that case the class list of the sidebar is the old one without \<^verbatim>\<open>sidebar-open\<close>;
  in every other case (a click inside the sidebar among them) the page is returned as it
  was, so the listener never adds \<^verbatim>\<open>sidebar-open\<close> either. No other class of any
  element changes.
\<close>

theorem clickListener_closes_exactly_when:
  assumes "getElementById d ''main-sidebar'' = Some s"
    and "querySelector_class d ''sidebar-toggle'' = Some t"
  shows "\<exists>d'. clickListener d ev = Inr d' \<and>
           ((classList_contains d s ''sidebar-open'' \<and> \<not> classList_contains d' s ''sidebar-open'')
              = (innerWidth d \<le> 991 \<and> classList_contains d s ''sidebar-open'' \<and>
                 \<not> contains d s (target ev) \<and> \<not> contains d t (target ev))) \<and>
           (contains d s (target ev) \<longrightarrow> d' = d) \<and>
           (\<forall>n c. n \<noteq> s \<or> c \<noteq> ''sidebar-open'' \<longrightarrow>
                  classList_contains d' n c = classList_contains d n c) \<and>
           (\<forall>n. n \<noteq> s \<longrightarrow> classList d' n = classList d n) \<and>
           (classList_contains d' s ''sidebar-open'' \<longrightarrow> classList_contains d s ''sidebar-open'') \<and>
           classList_contains d' s ''sidebar-open''
             = (classList_contains d s ''sidebar-open'' \<and>
                \<not> (innerWidth d \<le> 991 \<and> \<not> contains d s (target ev) \<and>
                   \<not> contains d t (target ev))) \<and>
           classList d' s
             = (if innerWidth d \<le> 991 \<and> classList_contains d s ''sidebar-open'' \<and>
                   \<not> contains d s (target ev) \<and> \<not> contains d t (target ev)
                then removeAll ''sidebar-open'' (classList d s) else classList d s) \<and>
           (\<not> (innerWidth d \<le> 991 \<and> classList_contains d s ''sidebar-open'' \<and>
               \<not> contains d s (target ev) \<and> \<not> contains d t (target ev)) \<longrightarrow> d' = d)"
proof (cases "innerWidth d \<le> 991 \<and> classList_contains d s ''sidebar-open'' \<and>
              \<not> contains d s (target ev) \<and> \<not> contains d t (target ev)")
  case True
  with assms have "clickListener d ev = Inr (classList_remove d s ''sidebar-open'')"
    by (simp add: clickListener_def)
  with True show ?thesis
    by (auto simp add: classList_remove_def classList_contains_def)
next
  case False
  with assms have "clickListener d ev = Inr d"
    by (auto simp add: clickListener_def)
  with False show ?thesis
    by auto
qed

theorem clickListener_closes_exactly_when_witness:
  "getElementById (page 500 [''sidebar-open'']) ''main-sidebar'' = Some 20 \<and>
   querySelector_class (page 500 [''sidebar-open'']) ''sidebar-toggle'' = Some 50 \<and>
   (\<exists>d'. clickListener (page 500 [''sidebar-open'']) (click 60) = Inr d' \<and>
         \<not> classList_contains d' 20 ''sidebar-open'') \<and>
   clickListener (page 500 [''sidebar-open'']) (click 40) = Inr (page 500 [''sidebar-open'']) \<and>
   clickListener (page 500 [''sidebar-open'']) (click 50) = Inr (page 500 [''sidebar-open'']) \<and>
   clickListener (page 1200 [''sidebar-open'']) (click 60) = Inr (page 1200 [''sidebar-open'']) \<and>
   getElementById (page 500 []) ''main-sidebar'' = Some 20 \<and>
   querySelector_class (page 500 []) ''sidebar-toggle'' = Some 50 \<and>
   clickListener (page 500 []) (click 60) = Inr (page 500 []) \<and>
   \<not> classList_contains (page 500 []) 20 ''sidebar-open''"
  using clickListener_closes_exactly_when [of "page 500 [''sidebar-open'']" 20 50 "click 60"]
        clickListener_closes_exactly_when [of "page 500 [''sidebar-open'']" 20 50 "click 40"]
        clickListener_closes_exactly_when [of "page 500 [''sidebar-open'']" 20 50 "click 50"]
        clickListener_closes_exactly_when [of "page 1200 [''sidebar-open'']" 20 50 "click 60"]
        clickListener_closes_exactly_when [of "page 500 []" 20 50 "click 60"]
  by (auto simp add: page_sidebar page_toggle page_width page_has page_contains click_def)

section \<open>toggleTreeview\<close>

text \<open>
  C6. For an element with a parent and any event, \<open>toggleTreeview\<close> calls
  \<^verbatim>\<open>preventDefault\<close> on the event (which cancels a cancelable event), then flips the
  presence of \<^verbatim>\<open>menu-open\<close> on the parent of the element; the class list of every
  other element is as before.
\<close>

theorem toggleTreeview_effect:
  "parentElement d element = Some p \<Longrightarrow>
     \<exists>d'. toggleTreeview d element ev = (preventDefault ev, Inr d') \<and>
          (cancelable ev \<longrightarrow> defaultPrevented (preventDefault ev)) \<and>
          classList_contains d' p ''menu-open'' = (\<not> classList_contains d p ''menu-open'') \<and>
          (\<forall>n. n \<noteq> p \<longrightarrow> classList d' n = classList d n)"
  by (simp add: toggleTreeview_def classList_toggle_flips classList_toggle_other_node
        preventDefault_def)

theorem toggleTreeview_effect_witness:
  "parentElement (page 1200 []) 40 = Some 30 \<and>
   \<not> classList_contains (page 1200 []) 30 ''menu-open'' \<and>
   (\<exists>d'. toggleTreeview (page 1200 []) 40 (click 40)
           = (\<lparr>target = 40, cancelable = True, defaultPrevented = True\<rparr>, Inr d') \<and>
         classList_contains d' 30 ''menu-open'' \<and>
         classList d' 20 = classList (page 1200 []) 20)"
  using toggleTreeview_effect [of "page 1200 []" 40 30 "click 40"]
  by (auto simp add: page_parent click_def preventDefault_def classList_contains_def page_classList)

section \<open>The breakpoint\<close>

text \<open>
  C5. A width of exactly 991 counts as mobile in all three places: \<open>toggleSidebar\<close>
  flips \<^verbatim>\<open>sidebar-open\<close> on the sidebar and leaves \<^verbatim>\<open>sidebar-collapse\<close> alone,
  \<open>handleResize\<close> removes nothing, and the click listener closes an open sidebar
  on a click outside the sidebar and the toggle element.
\<close>

theorem boundary_991_is_mobile:
  "innerWidth d = 991 \<Longrightarrow> getElementById d ''main-sidebar'' = Some s \<Longrightarrow>
     (\<exists>d'. toggleSidebar d = Inr d' \<and>
           classList_contains d' s ''sidebar-open''
             = (\<not> classList_contains d s ''sidebar-open'') \<and>
           (\<forall>n. classList_contains d' n ''sidebar-collapse''
                  = classList_contains d n ''sidebar-collapse'')) \<and>
     handleResize d = Inr d \<and>
     (classList_contains d s ''sidebar-open'' \<longrightarrow>
      \<not> contains d s (target ev) \<longrightarrow>
      querySelector_class d ''sidebar-toggle'' = Some t \<longrightarrow>
      \<not> contains d t (target ev) \<longrightarrow>
        (\<exists>d'. clickListener d ev = Inr d' \<and> \<not> classList_contains d' s ''sidebar-open''))"
  by (simp add: toggleSidebar_def handleResize_def clickListener_def classList_toggle_flips
        classList_toggle_other_class classList_remove_gone)

theorem boundary_991_is_mobile_witness:
  "innerWidth (page 991 [''sidebar-open'']) = 991 \<and>
   getElementById (page 991 [''sidebar-open'']) ''main-sidebar'' = Some 20 \<and>
   (\<exists>d'. toggleSidebar (page 991 [''sidebar-open'']) = Inr d' \<and>
         \<not> classList_contains d' 20 ''sidebar-open'' \<and>
         \<not> classList_contains d' 10 ''sidebar-collapse'') \<and>
   handleResize (page 991 [''sidebar-open'']) = Inr (page 991 [''sidebar-open'']) \<and>
   (\<exists>d'. clickListener (page 991 [''sidebar-open'']) (click 60) = Inr d' \<and>
         \<not> classList_contains d' 20 ''sidebar-open'')"
  using boundary_991_is_mobile [of "page 991 [''sidebar-open'']" 20 "click 60" 50]
  by (auto simp add: page_sidebar page_toggle page_width page_has page_contains click_def)

section \<open>Toggling twice\<close>

text \<open>
  C8. Two calls in a row restore the flags. When \<open>toggleSidebar\<close> has returned, a
  second call on the page it left, at the same width, returns too, and every class of
  every element (so \<^verbatim>\<open>sidebar-collapse\<close> on the body and \<^verbatim>\<open>sidebar-open\<close> on
  the sidebar) is present afterwards exactly if it was present at the start. When
  \<open>toggleTreeview\<close> has returned, the element still has the same parent, and a second
  call on the same element restores \<^verbatim>\<open>menu-open\<close> on that parent, with every other
  flag.
\<close>

theorem toggle_twice_restores:
  "(toggleSidebar d = Inr d1 \<longrightarrow>
      (\<exists>d2. toggleSidebar d1 = Inr d2 \<and>
            (\<forall>n c. classList_contains d2 n c = classList_contains d n c))) \<and>
   (toggleTreeview d element ev = (ev1, Inr d1) \<longrightarrow>
      parentElement d1 element = parentElement d element \<and>
      (\<exists>d2 ev2. toggleTreeview d1 element ev' = (ev2, Inr d2) \<and>
            (\<forall>n c. classList_contains d2 n c = classList_contains d n c)))"
  using toggleSidebar_twice [of d d1] toggleTreeview_twice [of d element ev ev1 d1 ev']
  by blast

theorem toggle_twice_restores_witness:
  "(\<exists>d1. toggleSidebar (page 1200 []) = Inr d1 \<and>
     classList_contains d1 10 ''sidebar-collapse'' \<and>
     (\<exists>d2. toggleSidebar d1 = Inr d2 \<and> \<not> classList_contains d2 10 ''sidebar-collapse'' \<and>
           \<not> classList_contains d2 20 ''sidebar-open'')) \<and>
   (\<exists>d1. toggleSidebar (page 500 []) = Inr d1 \<and>
     classList_contains d1 20 ''sidebar-open'' \<and>
     (\<exists>d2. toggleSidebar d1 = Inr d2 \<and> \<not> classList_contains d2 20 ''sidebar-open'' \<and>
           \<not> classList_contains d2 10 ''sidebar-collapse'')) \<and>
   (\<exists>d1 e1. toggleTreeview (page 500 []) 40 (click 40) = (e1, Inr d1) \<and>
     classList_contains d1 30 ''menu-open'' \<and>
     (\<exists>d2 e2. toggleTreeview d1 40 e1 = (e2, Inr d2) \<and>
           \<not> classList_contains d2 30 ''menu-open''))"
proof -
  let ?a = "classList_toggle (page 1200 []) 10 ''sidebar-collapse''"
  let ?b = "classList_toggle (page 500 []) 20 ''sidebar-open''"
  let ?c = "classList_toggle (page 500 []) 30 ''menu-open''"
  have a: "toggleSidebar (page 1200 []) = Inr ?a"
    by (simp add: toggleSidebar_def page_width page_body)
  have b: "toggleSidebar (page 500 []) = Inr ?b"
    by (simp add: toggleSidebar_def page_width page_sidebar)
  have c: "toggleTreeview (page 500 []) 40 (click 40) = (preventDefault (click 40), Inr ?c)"
    by (simp add: toggleTreeview_def page_parent)
  have m: "\<not> classList_contains (page 500 []) 30 ''menu-open''"
    by (simp add: classList_contains_def page_classList)
  from toggle_twice_restores [THEN conjunct1, rule_format, OF a]
  have 1: "\<exists>d2. toggleSidebar ?a = Inr d2 \<and> \<not> classList_contains d2 10 ''sidebar-collapse'' \<and>
             \<not> classList_contains d2 20 ''sidebar-open''"
    by (auto simp add: page_has)
  from toggle_twice_restores [THEN conjunct1, rule_format, OF b]
  have 2: "\<exists>d2. toggleSidebar ?b = Inr d2 \<and> \<not> classList_contains d2 20 ''sidebar-open'' \<and>
             \<not> classList_contains d2 10 ''sidebar-collapse''"
    by (auto simp add: page_has)
  from toggle_twice_restores [THEN conjunct2, rule_format, OF c, of "preventDefault (click 40)"] m
  have 3: "\<exists>d2 e2. toggleTreeview ?c 40 (preventDefault (click 40)) = (e2, Inr d2) \<and>
             \<not> classList_contains d2 30 ''menu-open''"
    by auto
  from a 1 b 2 c 3 m show ?thesis
    by (simp add: classList_toggle_flips page_has)
qed

section \<open>Handlers that only close\<close>

text \<open>
  C10. Neither \<open>handleResize\<close> nor the click listener ever adds
  \<^verbatim>\<open>sidebar-open\<close>. On the page either of them returns, the class set of every
  element (the sidebar among them) is the one it had or that one without
  \<^verbatim>\<open>sidebar-open\<close>, and \<^verbatim>\<open>sidebar-collapse\<close> and \<^verbatim>\<open>menu-open\<close> are where
  they were. (A handler that throws has written nothing.)
\<close>

theorem resize_and_click_never_open:
  "(handleResize d = Inr d' \<or> clickListener d ev = Inr d') \<longrightarrow>
     (\<forall>n. (set (classList d' n) = set (classList d n) \<or>
           set (classList d' n) = set (classList d n) - {''sidebar-open''}) \<and>
          (classList_contains d' n ''sidebar-open'' \<longrightarrow> classList_contains d n ''sidebar-open'') \<and>
          classList_contains d' n ''sidebar-collapse'' = classList_contains d n ''sidebar-collapse'' \<and>
          classList_contains d' n ''menu-open'' = classList_contains d n ''menu-open'')"
proof (intro impI allI)
  fix n
  assume "handleResize d = Inr d' \<or> clickListener d ev = Inr d'"
  then have "d' = d \<or> (\<exists>s. d' = classList_remove d s ''sidebar-open'')"
    using handleResize_result clickListener_result by blast
  then show "(set (classList d' n) = set (classList d n) \<or>
           set (classList d' n) = set (classList d n) - {''sidebar-open''}) \<and>
          (classList_contains d' n ''sidebar-open'' \<longrightarrow> classList_contains d n ''sidebar-open'') \<and>
          classList_contains d' n ''sidebar-collapse'' = classList_contains d n ''sidebar-collapse'' \<and>
          classList_contains d' n ''menu-open'' = classList_contains d n ''menu-open''"
    using classList_remove_only_removes [of d _ "''sidebar-open''" n]
    by (auto simp add: classList_remove_other_class)
qed

theorem resize_and_click_never_open_witness:
  "(\<exists>d'. handleResize (page 1200 [''sidebar-open'']) = Inr d' \<and>
         set (classList d' 20) = set (classList (page 1200 [''sidebar-open'']) 20) - {''sidebar-open''}) \<and>
   (\<exists>d'. clickListener (page 500 [''sidebar-open'']) (click 60) = Inr d' \<and>
         set (classList d' 20) = set (classList (page 500 [''sidebar-open'']) 20) - {''sidebar-open''}) \<and>
   (\<exists>d'. clickListener (page 500 []) (click 60) = Inr d' \<and>
         \<not> classList_contains d' 20 ''sidebar-open'')"
proof -
  let ?p = "page 1200 [''sidebar-open'']"
  let ?q = "page 500 [''sidebar-open'']"
  let ?r = "page 500 []"
  have a: "handleResize ?p = Inr (classList_remove ?p 20 ''sidebar-open'')"
    by (simp add: handleResize_def page_width page_sidebar)
  have b: "clickListener ?q (click 60) = Inr (classList_remove ?q 20 ''sidebar-open'')"
    by (simp add: clickListener_def page_width page_sidebar page_toggle page_has
          page_contains click_def)
  have c: "clickListener ?r (click 60) = Inr ?r"
    by (simp add: clickListener_def page_width page_sidebar page_has)
  from c resize_and_click_never_open [of ?r ?r "click 60"]
  have 3: "\<not> classList_contains ?r 20 ''sidebar-open''"
    by (simp add: page_has)
  from a b c 3 resize_and_click_never_open [of ?p "classList_remove ?p 20 ''sidebar-open''"]
    resize_and_click_never_open [of ?q "classList_remove ?q 20 ''sidebar-open''" "click 60"]
  show ?thesis
    by (simp add: classList_remove_set)
qed

end
